theory Spec2Isabelle
  imports Complex_Main
begin

section \<open>Exact inference over a discrete Bayesian network\<close>

text \<open>
  A shallow embedding of \<^verbatim>\<open>graph.py\<close> (class \<^verbatim>\<open>DirectedGraph\<close>) and
  \<^verbatim>\<open>bayesian.py\<close> (class \<^verbatim>\<open>BayesianNet\<close>).  Methods that mutate the
  network return the outcome of the call together with the network after the call;
  queries return an error or a value.
\<close>

subsection \<open>Exceptions\<close>

text \<open>
  The Python exceptions the two files can raise.  The argument is the message for an
  exception raised by the repository's own \<^verbatim>\<open>raise\<close>, the missing key for a
  \<^verbatim>\<open>KeyError\<close>, the missing attribute for an \<^verbatim>\<open>AttributeError\<close>, and the name of
  the library call for an exception raised inside the library (whose wording is not
  reproduced).
\<close>

datatype error =
    ValueError string
  | KeyError string
  | AttributeError string
  | IndexError string

definition bindE :: "error + 'a \<Rightarrow> ('a \<Rightarrow> error + 'b) \<Rightarrow> error + 'b" where
  "bindE m f = (case m of Inl e \<Rightarrow> Inl e | Inr x \<Rightarrow> f x)"

text \<open>A list comprehension whose element expression may raise: the first error wins.\<close>

fun mapE :: "('a \<Rightarrow> error + 'b) \<Rightarrow> 'a list \<Rightarrow> error + 'b list" where
  "mapE f [] = Inr []"
| "mapE f (x # xs) =
     (case f x of
        Inl e \<Rightarrow> Inl e
      | Inr y \<Rightarrow> (case mapE f xs of Inl e \<Rightarrow> Inl e | Inr ys \<Rightarrow> Inr (y # ys)))"

subsection \<open>Numbers and arrays\<close>

text \<open>
  An entry of a numpy array of floats.  The three special values are kept because
  numpy's division by zero does not raise: it yields \<^verbatim>\<open>nan\<close> or an infinity.
  Finite values are exact reals, an idealization: the rounding of \<^verbatim>\<open>float64\<close>, its
  overflow to an infinity, its underflow to zero, the sign of zero and the order in
  which numpy adds are not modelled.  On finite values the model therefore computes
  what the code computes only where \<^verbatim>\<open>float64\<close> arithmetic is exact, as on the binary
  fractions of the examples below.  The properties proved for all networks do not rest
  on the arithmetic of finite non-zero values: they are equations between the
  results of the same operations, or facts about zero and the special values.
\<close>

datatype num = Fin real | PInf | MInf | NaN

fun fneg :: "num \<Rightarrow> num" where
  "fneg (Fin x) = Fin (- x)"
| "fneg PInf = MInf"
| "fneg MInf = PInf"
| "fneg NaN = NaN"

fun fadd :: "num \<Rightarrow> num \<Rightarrow> num" where
  "fadd (Fin x) (Fin y) = Fin (x + y)"
| "fadd NaN _ = NaN"
| "fadd _ NaN = NaN"
| "fadd PInf MInf = NaN"
| "fadd MInf PInf = NaN"
| "fadd PInf _ = PInf"
| "fadd _ PInf = PInf"
| "fadd MInf _ = MInf"
| "fadd _ MInf = MInf"

text \<open>An infinity times \<open>x\<close>: the sign follows \<open>x\<close>, and zero gives \<^verbatim>\<open>nan\<close>.\<close>

definition scale_inf :: "num \<Rightarrow> real \<Rightarrow> num" where
  "scale_inf i x = (if x = 0 then NaN else if 0 < x then i else fneg i)"

fun fmul :: "num \<Rightarrow> num \<Rightarrow> num" where
  "fmul (Fin x) (Fin y) = Fin (x * y)"
| "fmul NaN _ = NaN"
| "fmul _ NaN = NaN"
| "fmul (Fin x) i = scale_inf i x"
| "fmul i (Fin y) = scale_inf i y"
| "fmul PInf i = i"
| "fmul MInf i = fneg i"

fun fdiv :: "num \<Rightarrow> num \<Rightarrow> num" where
  "fdiv (Fin x) (Fin y) =
     (if y = 0 then (if x = 0 then NaN else if 0 < x then PInf else MInf)
      else Fin (x / y))"
| "fdiv NaN _ = NaN"
| "fdiv _ NaN = NaN"
| "fdiv (Fin x) _ = Fin 0"
| "fdiv i (Fin y) = (if 0 \<le> y then i else fneg i)"
| "fdiv _ _ = NaN"

text \<open>
  A numpy array: its shape and its entries in row-major order.  A numpy scalar is the
  array of shape \<open>[]\<close> with one entry.
\<close>

datatype ndarray = NDArray (shape: "nat list") (entries: "num list")

text \<open>All index tuples of a shape, in row-major order.\<close>

fun indices :: "nat list \<Rightarrow> nat list list" where
  "indices [] = [[]]"
| "indices (n # ns) = concat (map (\<lambda>i. map ((#) i) (indices ns)) [0..<n])"

text \<open>The row-major position of an index tuple.\<close>

fun offset :: "nat list \<Rightarrow> nat list \<Rightarrow> nat" where
  "offset (n # ns) (i # is) = i * prod_list ns + offset ns is"
| "offset _ _ = 0"

definition item :: "ndarray \<Rightarrow> nat list \<Rightarrow> num" where
  "item a idx = entries a ! offset (shape a) idx"

text \<open>\<^verbatim>\<open>np.sum(a)\<close>: the sum of all entries.\<close>

definition fsum :: "num list \<Rightarrow> num" where
  "fsum xs = foldr fadd xs (Fin 0)"

definition np_sum :: "ndarray \<Rightarrow> num" where
  "np_sum a = fsum (entries a)"

text \<open>\<^verbatim>\<open>a / s\<close> for a scalar \<open>s\<close>: entrywise division, which never raises.\<close>

definition np_div :: "ndarray \<Rightarrow> num \<Rightarrow> ndarray" where
  "np_div a s = NDArray (shape a) (map (\<lambda>x. fdiv x s) (entries a))"


subsection \<open>The directed graph (\<^verbatim>\<open>graph.py\<close>)\<close>

text \<open>
  The three attributes \<^verbatim>\<open>probability\<close>, \<^verbatim>\<open>states\<close> and \<^verbatim>\<open>dependencyList\<close>
  of a vertex are absent until \<^verbatim>\<open>addProbabilityTable\<close> sets all three, so they are
  one optional component.  Vertexes hash and compare by name, so a neighbour set is a
  set of names.
\<close>

record attrs =
  probability :: ndarray
  states :: "string list"
  dependencyList :: "string list"

record vertex =
  name :: string
  neighbors :: "string set"
  table :: "attrs option"

text \<open>
  \<^verbatim>\<open>_vertexes\<close> is a dictionary from a name to the vertex of that name, kept in
  insertion order: the list of its values.  \<^verbatim>\<open>_edges\<close> is keyed by the pair of
  names and holds the weight.  \<^verbatim>\<open>evidenceList\<close> is the list of (node, state) pairs.
\<close>

record BayesianNet =
  vertexes :: "vertex list"
  edges :: "((string \<times> string) \<times> int) list"
  evidenceList :: "(string \<times> string) list"

definition init :: BayesianNet where
  "init = \<lparr>vertexes = [], edges = [], evidenceList = []\<rparr>"

definition vertexObject :: "BayesianNet \<Rightarrow> string \<Rightarrow> error + vertex" where
  "vertexObject net vName =
     (case find (\<lambda>v. name v = vName) (vertexes net) of
        None \<Rightarrow> Inl (KeyError vName)
      | Some v \<Rightarrow> Inr v)"

definition addVertex :: "BayesianNet \<Rightarrow> string \<Rightarrow> BayesianNet" where
  "addVertex net n =
     (if n \<notin> set (map name (vertexes net))
      then net\<lparr>vertexes := vertexes net @ [\<lparr>name = n, neighbors = {}, table = None\<rparr>]\<rparr>
      else net)"

text \<open>The assignment to an attribute of the vertex object stored under a name.\<close>

fun update_vertex :: "string \<Rightarrow> (vertex \<Rightarrow> vertex) \<Rightarrow> vertex list \<Rightarrow> vertex list" where
  "update_vertex n f [] = []"
| "update_vertex n f (v # vs) =
     (if name v = n then f v # vs else v # update_vertex n f vs)"

definition addEdge :: "BayesianNet \<Rightarrow> string \<Rightarrow> string \<Rightarrow> int \<Rightarrow> BayesianNet" where
  "addEdge net pName cName weight =
     (if (pName, cName) \<notin> set (map fst (edges net))
      then let net1 = addVertex net pName;
               net2 = addVertex net1 cName
           in net2\<lparr>vertexes :=
                      update_vertex pName (\<lambda>p. p\<lparr>neighbors := insert cName (neighbors p)\<rparr>)
                        (vertexes net2),
                    edges := edges net2 @ [((pName, cName), weight)]\<rparr>
      else net)"

subsection \<open>The Bayesian network (\<^verbatim>\<open>bayesian.py\<close>)\<close>

definition addNode :: "BayesianNet \<Rightarrow> string \<Rightarrow> BayesianNet" where
  "addNode net nName = addVertex net nName"

definition addChild :: "BayesianNet \<Rightarrow> string \<Rightarrow> string \<Rightarrow> BayesianNet" where
  "addChild net pName cName = addEdge net pName cName 1"

text \<open>
  \<^verbatim>\<open>getParents\<close>: the vertexes that have the vertex of the given name among
  their neighbours (a set of vertexes, here the list of its members).
\<close>

definition getParents :: "BayesianNet \<Rightarrow> string \<Rightarrow> error + vertex list" where
  "getParents net uName =
     bindE (vertexObject net uName) (\<lambda>u.
       Inr (filter (\<lambda>v. name u \<in> neighbors v) (vertexes net)))"

text \<open>Reading an attribute that \<^verbatim>\<open>addProbabilityTable\<close> has not set yet raises.\<close>

definition get_probability :: "vertex \<Rightarrow> error + ndarray" where
  "get_probability v =
     (case table v of None \<Rightarrow> Inl (AttributeError ''probability'')
      | Some a \<Rightarrow> Inr (probability a))"

definition get_states :: "vertex \<Rightarrow> error + string list" where
  "get_states v =
     (case table v of None \<Rightarrow> Inl (AttributeError ''states'')
      | Some a \<Rightarrow> Inr (states a))"

definition get_dependencyList :: "vertex \<Rightarrow> error + string list" where
  "get_dependencyList v =
     (case table v of None \<Rightarrow> Inl (AttributeError ''dependencyList'')
      | Some a \<Rightarrow> Inr (dependencyList a))"

text \<open>
  \<^verbatim>\<open>addProbabilityTable\<close>.  \<^verbatim>\<open>shape[0]\<close> of a scalar raises an
  \<^verbatim>\<open>IndexError\<close>; \<^verbatim>\<open>getParents\<close> raises a \<^verbatim>\<open>KeyError\<close> for an unknown name.  The
  result is the exception raised, if any, and the network after the call.
\<close>

definition addProbabilityTable ::
  "BayesianNet \<Rightarrow> string \<Rightarrow> ndarray \<Rightarrow> string list \<Rightarrow> string list option
     \<Rightarrow> error option \<times> BayesianNet" where
  "addProbabilityTable net uName prob sts depList =
     (let dl = (case depList of None \<Rightarrow> [] | Some l \<Rightarrow> l);
          shp = shape prob
      in case shp of
           [] \<Rightarrow> (Some (IndexError ''tuple index out of range''), net)
         | d # _ \<Rightarrow>
             if d \<noteq> length sts then (Some (ValueError ''Incorrect states''), net)
             else (case getParents net uName of
                     Inl e \<Rightarrow> (Some e, net)
                   | Inr ps \<Rightarrow>
                       if length shp \<noteq> length ps + 1
                       then (Some (ValueError
                              ''Incorrect dimensions for conditional/marginal probability''), net)
                       else if length shp \<noteq> length dl + 1
                       then (Some (ValueError ''Incorrect dependency list''), net)
                       else (None,
                             net\<lparr>vertexes :=
                                   update_vertex uName
                                     (\<lambda>u. u\<lparr>table := Some \<lparr>probability = prob, states = sts,
                                                           dependencyList = dl\<rparr>\<rparr>)
                                     (vertexes net)\<rparr>)))"

text \<open>
  \<^verbatim>\<open>setEvidence\<close>.  The loop validates the entries in order; an unknown name
  prints a message and returns, an unknown state raises.  The result is the exception
  raised, if any, the lines printed, and the network after the call.
\<close>

datatype check = Fine | Printed string | Raised error

fun check_evidence :: "BayesianNet \<Rightarrow> (string \<times> string) list \<Rightarrow> check" where
  "check_evidence net [] = Fine"
| "check_evidence net ((vName, vState) # rest) =
     (case vertexObject net vName of
        Inl e \<Rightarrow> Printed ''Invalid node specified''
      | Inr v \<Rightarrow>
          (case get_states v of
             Inl e \<Rightarrow> Raised e
           | Inr sts \<Rightarrow>
               if vState \<notin> set sts
               then Raised (ValueError ''Invalid state for node specified'')
               else check_evidence net rest))"

definition setEvidence ::
  "BayesianNet \<Rightarrow> (string \<times> string) list \<Rightarrow> error option \<times> string list \<times> BayesianNet" where
  "setEvidence net evList =
     (case check_evidence net evList of
        Raised e \<Rightarrow> (Some e, [], net)
      | Printed msg \<Rightarrow> (None, [msg], net)
      | Fine \<Rightarrow> (None, [], net\<lparr>evidenceList := evList\<rparr>))"

definition unsetEvidence :: "BayesianNet \<Rightarrow> BayesianNet" where
  "unsetEvidence net = net\<lparr>evidenceList := []\<rparr>"

subsection \<open>The contraction primitive (\<^verbatim>\<open>np.einsum\<close>)\<close>

text \<open>
  \<^verbatim>\<open>np.einsum\<close> is numpy's, not this repository's.  The model takes the subscripts
  already split: one label sequence per operand and the output label sequence
  (\<^verbatim>\<open>jointProbability\<close> joins label sequences with \<^verbatim>\<open>,\<close> and \<^verbatim>\<open>->\<close>, and every label it
  makes is \<^verbatim>\<open>chr(i + 97)\<close>, so never one of the separators).  A label is a code point.
  Every failure of the call is a \<^verbatim>\<open>ValueError\<close>: no operand, a label that is not an
  ASCII letter, an operand whose rank is not the length of its label sequence, an
  output label that is repeated or absent from the operands, and sizes of one label
  that do not agree (within one operand they must be equal; between operands a size
  of 1 is broadcast).  Each output entry is the sum, over the labels absent from the
  output, of the product of the operands' entries.
\<close>

definition is_letter :: "nat \<Rightarrow> bool" where
  "is_letter c = ((65 \<le> c \<and> c \<le> 90) \<or> (97 \<le> c \<and> c \<le> 122))"

definition op_dims :: "nat list \<times> ndarray \<Rightarrow> nat \<Rightarrow> nat list" where
  "op_dims opd l = map snd (filter (\<lambda>(l', d). l' = l) (zip (fst opd) (shape (snd opd))))"

definition op_ok :: "nat list \<times> ndarray \<Rightarrow> bool" where
  "op_ok opd =
     (length (fst opd) = length (shape (snd opd)) \<and>
      (\<forall>l \<in> set (fst opd). \<forall>d \<in> set (op_dims opd l). d = hd (op_dims opd l)))"

definition label_dim :: "(nat list \<times> ndarray) list \<Rightarrow> nat \<Rightarrow> nat" where
  "label_dim ops l =
     (case filter (\<lambda>d. d \<noteq> 1) (concat (map (\<lambda>opd. op_dims opd l) ops)) of
        [] \<Rightarrow> 1
      | d # _ \<Rightarrow> d)"

definition broadcast_ok :: "(nat list \<times> ndarray) list \<Rightarrow> nat \<Rightarrow> bool" where
  "broadcast_ok ops l =
     (\<forall>d \<in> set (concat (map (\<lambda>opd. op_dims opd l) ops)). d = 1 \<or> d = label_dim ops l)"

definition lookup_idx :: "(nat \<times> nat) list \<Rightarrow> nat \<Rightarrow> nat" where
  "lookup_idx env l = (case map_of env l of None \<Rightarrow> 0 | Some i \<Rightarrow> i)"

definition operand_entry :: "(nat \<times> nat) list \<Rightarrow> nat list \<times> ndarray \<Rightarrow> num" where
  "operand_entry env opd =
     item (snd opd)
       (map (\<lambda>(l, d). if d = 1 then 0 else lookup_idx env l) (zip (fst opd) (shape (snd opd))))"

definition fprod :: "num list \<Rightarrow> num" where
  "fprod xs = foldr fmul xs (Fin 1)"

definition einsum :: "(nat list \<times> ndarray) list \<Rightarrow> nat list \<Rightarrow> error + ndarray" where
  "einsum ops out =
     (let labels = remdups (concat (map fst ops));
          summed = filter (\<lambda>l. l \<notin> set out) labels
      in if ops = [] \<or> \<not> (\<forall>l \<in> set (labels @ out). is_letter l)
            \<or> \<not> (\<forall>opd \<in> set ops. op_ok opd)
            \<or> \<not> distinct out \<or> \<not> set out \<subseteq> set labels
            \<or> \<not> (\<forall>l \<in> set labels. broadcast_ok ops l)
         then Inl (ValueError ''einsum'')
         else Inr (NDArray (map (label_dim ops) out)
                (map (\<lambda>oi. fsum (map (\<lambda>si. fprod (map (operand_entry (zip (out @ summed) (oi @ si))) ops))
                                   (indices (map (label_dim ops) summed))))
                     (indices (map (label_dim ops) out)))))"

subsection \<open>Indexing an array with a tuple of integers and full slices\<close>

datatype sel = All | At nat

fun kept_dims :: "sel list \<Rightarrow> nat list \<Rightarrow> nat list" where
  "kept_dims (All # ss) (d # ds) = d # kept_dims ss ds"
| "kept_dims (At k # ss) (d # ds) = kept_dims ss ds"
| "kept_dims _ _ = []"

fun merge_index :: "sel list \<Rightarrow> nat list \<Rightarrow> nat list" where
  "merge_index (At k # ss) is = k # merge_index ss is"
| "merge_index (All # ss) (i # is) = i # merge_index ss is"
| "merge_index _ _ = []"

definition out_of_bounds :: "sel \<times> nat \<Rightarrow> bool" where
  "out_of_bounds p = (case fst p of All \<Rightarrow> False | At k \<Rightarrow> snd p \<le> k)"

text \<open>
  \<^verbatim>\<open>a[tuple(dimList)]\<close>: an integer drops its axis, \<^verbatim>\<open>slice(None)\<close> keeps it, axes
  beyond the tuple are kept; too many indices or an integer beyond the axis raise.
\<close>

definition np_index :: "ndarray \<Rightarrow> sel list \<Rightarrow> error + ndarray" where
  "np_index a dimList =
     (if length (shape a) < length dimList
      then Inl (IndexError ''too many indices for array'')
      else let sels = dimList @ replicate (length (shape a) - length dimList) All
           in if list_ex out_of_bounds (zip sels (shape a))
              then Inl (IndexError ''index out of bounds'')
              else Inr (NDArray (kept_dims sels (shape a))
                     (map (\<lambda>idx. item a (merge_index sels idx))
                        (indices (kept_dims sels (shape a))))))"

subsection \<open>Joint, marginal and inference queries\<close>

text \<open>
  \<^verbatim>\<open>indexDict\<close>: the label \<^verbatim>\<open>chr(i + 97)\<close> of the \<open>i\<close>-th vertex, as a code point;
  \<^verbatim>\<open>chr\<close> raises beyond \<^verbatim>\<open>0x10FFFF\<close>.
\<close>

definition indexDict :: "BayesianNet \<Rightarrow> error + (string \<rightharpoonup> nat)" where
  "indexDict net =
     (if 1114112 < length (vertexes net) + 97 then Inl (ValueError ''chr'')
      else Inr (fold (\<lambda>(i, v) d. d(name v \<mapsto> i + 97)) (enumerate 0 (vertexes net)) Map.empty))"

definition lookupD :: "(string \<rightharpoonup> nat) \<Rightarrow> string \<Rightarrow> error + nat" where
  "lookupD d k = (case d k of None \<Rightarrow> Inl (KeyError k) | Some c \<Rightarrow> Inr c)"

text \<open>\<^verbatim>\<open>states.index(vState)\<close>: the first position, or a \<^verbatim>\<open>ValueError\<close>.\<close>

fun list_index :: "string list \<Rightarrow> string \<Rightarrow> error + nat" where
  "list_index [] s = Inl (ValueError ''list.index'')"
| "list_index (x # xs) s =
     (if x = s then Inr 0 else bindE (list_index xs s) (\<lambda>k. Inr (Suc k)))"

text \<open>The loop over the evidence list that fills \<^verbatim>\<open>dimList\<close>.\<close>

fun set_dims ::
  "BayesianNet \<Rightarrow> (string \<rightharpoonup> nat) \<Rightarrow> (string \<times> string) list \<Rightarrow> sel list \<Rightarrow> error + sel list" where
  "set_dims net d [] dimList = Inr dimList"
| "set_dims net d ((vName, vState) # rest) dimList =
     bindE (lookupD d vName) (\<lambda>c.
     let vIndex = c - 97 in
     bindE (vertexObject net vName) (\<lambda>v.
     bindE (get_states v) (\<lambda>sts.
     bindE (list_index sts vState) (\<lambda>k.
       if vIndex < length dimList
       then set_dims net d rest (dimList[vIndex := At k])
       else Inl (IndexError ''list assignment index out of range'')))))"

text \<open>The label sequence of one operand: the vertex's own label, then its parents'.\<close>

definition lhsTerm :: "(string \<rightharpoonup> nat) \<Rightarrow> vertex \<Rightarrow> error + nat list" where
  "lhsTerm d u =
     bindE (lookupD d (name u)) (\<lambda>c.
     bindE (get_dependencyList u) (\<lambda>dl.
     bindE (mapE (lookupD d) dl) (\<lambda>cs. Inr (c # cs))))"

text \<open>Lines 97 to 113: the contraction of the tables of the vertex list.\<close>

definition effective_list :: "BayesianNet \<Rightarrow> vertex list option \<Rightarrow> vertex list" where
  "effective_list net vertexList =
     (case vertexList of
        None \<Rightarrow> vertexes net
      | Some vl \<Rightarrow> if evidenceList net \<noteq> [] then vertexes net else vl)"

definition rawJoint :: "BayesianNet \<Rightarrow> vertex list \<Rightarrow> error + ndarray" where
  "rawJoint net vl =
     bindE (mapE get_probability vl) (\<lambda>probList.
     bindE (indexDict net) (\<lambda>d.
     bindE (mapE (\<lambda>v. lookupD d (name v)) vl) (\<lambda>rhs.
     bindE (mapE (lhsTerm d) vl) (\<lambda>lhsList.
       einsum (zip lhsList probList) rhs))))"

text \<open>
  Lines 119 to 125: the slice of the joint at the evidence.  (\<^verbatim>\<open>indexDict\<close> is the
  dictionary of line 101; it depends on the network only.)
\<close>

definition evidenceSlice :: "BayesianNet \<Rightarrow> ndarray \<Rightarrow> error + ndarray" where
  "evidenceSlice net jointProb =
     bindE (indexDict net) (\<lambda>d.
     bindE (set_dims net d (evidenceList net) (replicate (length (shape jointProb)) All))
       (\<lambda>dimList. np_index jointProb dimList))"

definition jointProbability :: "BayesianNet \<Rightarrow> vertex list option \<Rightarrow> error + ndarray" where
  "jointProbability net vertexList =
     bindE (rawJoint net (effective_list net vertexList)) (\<lambda>raw.
     let jointProb = np_div raw (np_sum raw) in
     if evidenceList net = [] then Inr jointProb
     else bindE (evidenceSlice net jointProb) (\<lambda>slicedProb.
            Inr (np_div slicedProb (np_sum slicedProb))))"

definition marginalProbability :: "BayesianNet \<Rightarrow> string \<Rightarrow> bool \<Rightarrow> error + ndarray" where
  "marginalProbability net uName tot =
     bindE (vertexObject net uName) (\<lambda>u.
     bindE (get_dependencyList u) (\<lambda>dl.
     if dl = [] \<and> evidenceList net = [] then get_probability u
     else
       let tot' = (if evidenceList net \<noteq> [] then True else tot) in
       bindE (if tot' then Inr (vertexes net)
              else bindE (mapE (vertexObject net) dl) (\<lambda>ps. Inr (u # ps))) (\<lambda>vertexList.
       bindE (jointProbability net (Some vertexList)) (\<lambda>jointProb.
       bindE (indexDict net) (\<lambda>d.
       let setVertexes = map fst (evidenceList net) in
       bindE (mapE (\<lambda>v. lookupD d (name v))
                (filter (\<lambda>v. name v \<notin> set setVertexes) vertexList)) (\<lambda>lhs.
       bindE (lookupD d uName) (\<lambda>rhs.
         einsum [(lhs, jointProb)] [rhs])))))))"

text \<open>\<^verbatim>\<open>getInference\<close> returns a state label or a distribution.\<close>

datatype inference = State string | Distribution ndarray

fun first_state :: "(string \<times> string) list \<Rightarrow> string \<Rightarrow> string option" where
  "first_state [] uName = None"
| "first_state ((vName, vState) # rest) uName =
     (if uName = vName then Some vState else first_state rest uName)"

definition getInference :: "BayesianNet \<Rightarrow> string \<Rightarrow> error + inference" where
  "getInference net uName =
     (case first_state (evidenceList net) uName of
        Some vState \<Rightarrow> Inr (State vState)
      | None \<Rightarrow> bindE (marginalProbability net uName True) (\<lambda>p. Inr (Distribution p)))"

subsection \<open>Networks built through the interface\<close>

text \<open>
  The networks a client can build: the constructor, then any sequence of calls of the
  mutating methods.  (The constructor's \<^verbatim>\<open>vertexes\<close> and \<^verbatim>\<open>edges\<close> arguments are
  calls of \<^verbatim>\<open>addVertex\<close> and \<^verbatim>\<open>addEdge\<close>.)
\<close>

inductive reachable :: "BayesianNet \<Rightarrow> bool" where
  r_init: "reachable init"
| r_addVertex: "reachable net \<Longrightarrow> reachable (addVertex net n)"
| r_addEdge: "reachable net \<Longrightarrow> reachable (addEdge net p c w)"
| r_addProbabilityTable:
    "reachable net \<Longrightarrow> reachable (snd (addProbabilityTable net u prob sts dl))"
| r_setEvidence: "reachable net \<Longrightarrow> reachable (snd (snd (setEvidence net ev)))"
| r_unsetEvidence: "reachable net \<Longrightarrow> reachable (unsetEvidence net)"

text \<open>The dictionary has one vertex per name.\<close>

definition distinct_names :: "BayesianNet \<Rightarrow> bool" where
  "distinct_names net = distinct (map name (vertexes net))"

text \<open>
  A declared parent list is never longer than the list of graph parents: they have
  the same length when the table is attached, and edges are only ever added.
\<close>

definition parents_cover :: "BayesianNet \<Rightarrow> bool" where
  "parents_cover net =
     (\<forall>v \<in> set (vertexes net). \<forall>a. table v = Some a \<longrightarrow>
        length (dependencyList a)
          \<le> length (filter (\<lambda>p. name v \<in> neighbors p) (vertexes net)))"

text \<open>A network is complete when every node has a table.\<close>

definition complete :: "BayesianNet \<Rightarrow> bool" where
  "complete net = list_all (\<lambda>v. table v \<noteq> None) (vertexes net)"

subsection \<open>The specification's wording of evidence\<close>

text \<open>
  An evidence entry is valid when its name is a node with a table whose state list
  has the entry's state.
\<close>

definition valid_entry :: "BayesianNet \<Rightarrow> string \<times> string \<Rightarrow> bool" where
  "valid_entry net e =
     (case vertexObject net (fst e) of
        Inl _ \<Rightarrow> False
      | Inr v \<Rightarrow> (case table v of None \<Rightarrow> False | Some a \<Rightarrow> snd e \<in> set (states a)))"

text \<open>
  The label of the \<open>i\<close>-th node is the \<open>i\<close>-th letter from \<^verbatim>\<open>a\<close>, so the axis a
  label locates is the position of the node in the node order.
\<close>

fun position :: "string \<Rightarrow> string list \<Rightarrow> nat option" where
  "position n [] = None"
| "position n (x # xs) =
     (if x = n then Some 0 else map_option Suc (position n xs))"

definition axis_of :: "BayesianNet \<Rightarrow> string \<Rightarrow> error + nat" where
  "axis_of net n =
     (case position n (map name (vertexes net)) of
        None \<Rightarrow> Inl (KeyError n)
      | Some k \<Rightarrow> Inr k)"



text \<open>
  Specification 4.5 with evidence: the joint of 4.4 over the full network, contracted
  to the label of the queried node over the labels of the nodes without evidence.
\<close>

definition label_of :: "BayesianNet \<Rightarrow> string \<Rightarrow> error + nat" where
  "label_of net n = bindE (axis_of net n) (\<lambda>k. Inr (k + 97))"

definition unclamped_labels :: "BayesianNet \<Rightarrow> nat list" where
  "unclamped_labels net =
     map (\<lambda>p. fst p + 97)
       (filter (\<lambda>p. name (snd p) \<notin> fst ` set (evidenceList net))
          (enumerate 0 (vertexes net)))"

definition marginal_spec :: "BayesianNet \<Rightarrow> string \<Rightarrow> error + ndarray" where
  "marginal_spec net uName =
     bindE (jointProbability net None) (\<lambda>joint.
     bindE (label_of net uName) (\<lambda>l.
       einsum [(unclamped_labels net, joint)] [l]))"

subsection \<open>Example networks\<close>

text \<open>A chain \<open>S \<rightarrow> C\<close> with two states per node, built through the interface.\<close>

definition chain0 :: BayesianNet where
  "chain0 = addChild (addNode init ''S'') ''S'' ''C''"

definition chain1 :: BayesianNet where
  "chain1 = snd (addProbabilityTable chain0 ''S''
                   (NDArray [2] [Fin (1/4), Fin (3/4)]) [''n'', ''y''] None)"

definition chain :: BayesianNet where
  "chain = snd (addProbabilityTable chain1 ''C''
                  (NDArray [2, 2] [Fin (1/2), Fin 1, Fin (1/2), Fin 0]) [''n'', ''y'']
                  (Some [''S'']))"

text \<open>The chain with evidence on \<open>S\<close>, with two entries for \<open>S\<close>, and with impossible evidence.\<close>

definition chain_ev :: BayesianNet where
  "chain_ev = snd (snd (setEvidence chain [(''S'', ''y'')]))"

definition chain_dup :: BayesianNet where
  "chain_dup = snd (snd (setEvidence chain [(''S'', ''y''), (''S'', ''n'')]))"


section \<open>Properties\<close>

subsection \<open>Basic facts\<close>

lemma bindE_simps [simp]:
  "bindE (Inl e) f = Inl e"
  "bindE (Inr x) f = f x"
  by (simp_all add: bindE_def)

lemma chain1_value:
  "chain1 = \<lparr>vertexes =
    [\<lparr>name = ''S'', neighbors = {''C''},
        table = Some \<lparr>probability = NDArray [2] [Fin (1 / 4), Fin (3 / 4)],
              states = [''n'', ''y''], dependencyList = []\<rparr>\<rparr>,
     \<lparr>name = ''C'', neighbors = {}, table = None\<rparr>],
    edges = [((''S'', ''C''), 1)], evidenceList = []\<rparr>"
  by (simp add: chain1_def chain0_def addChild_def addNode_def addEdge_def addVertex_def
      init_def addProbabilityTable_def getParents_def vertexObject_def Let_def)

lemma chain_value:
  "chain = \<lparr>vertexes =
    [\<lparr>name = ''S'', neighbors = {''C''},
        table = Some \<lparr>probability = NDArray [2] [Fin (1 / 4), Fin (3 / 4)],
              states = [''n'', ''y''], dependencyList = []\<rparr>\<rparr>,
     \<lparr>name = ''C'', neighbors = {},
        table = Some \<lparr>probability = NDArray [2, 2] [Fin (1 / 2), Fin 1, Fin (1 / 2), Fin 0],
              states = [''n'', ''y''], dependencyList = [''S'']\<rparr>\<rparr>],
    edges = [((''S'', ''C''), 1)], evidenceList = []\<rparr>"
  by (simp add: chain_def chain1_value addProbabilityTable_def getParents_def vertexObject_def
      Let_def)

lemma setEvidence_chain:
  "setEvidence chain [(''S'', ''y'')] = (None, [], chain\<lparr>evidenceList := [(''S'', ''y'')]\<rparr>)"
  "setEvidence chain [(''S'', ''y''), (''S'', ''n'')]
     = (None, [], chain\<lparr>evidenceList := [(''S'', ''y''), (''S'', ''n'')]\<rparr>)"
  "setEvidence chain [(''S'', ''y''), (''C'', ''y'')]
     = (None, [], chain\<lparr>evidenceList := [(''S'', ''y''), (''C'', ''y'')]\<rparr>)"
  by (simp_all add: setEvidence_def chain_value vertexObject_def get_states_def)

subsection \<open>Inference queries and the evidence list\<close>

lemma first_state_mem: "first_state ev n = Some s \<Longrightarrow> (n, s) \<in> set ev"
  by (induction ev n rule: first_state.induct) (auto split: if_splits)

lemma first_state_None: "(first_state ev n = None) = (n \<notin> fst ` set ev)"
  by (induction ev n rule: first_state.induct) (auto split: if_splits)

lemma first_state_append:
  "n \<notin> fst ` set pre \<Longrightarrow> first_state (pre @ (n, s) # post) n = Some s"
  by (induction pre) auto

text \<open>
  C3.  If the name appears in the evidence list, \<^verbatim>\<open>getInference\<close> returns the state
  of an entry for that name and computes no distribution; otherwise it returns
  \<^verbatim>\<open>marginalProbability(name, total = True)\<close>.  After \<^verbatim>\<open>setEvidence([(n, s)])\<close> has
  succeeded, \<^verbatim>\<open>getInference(n)\<close> returns \<open>s\<close>.
\<close>

theorem getInference_evidence_or_marginal:
  "(uName \<in> fst ` set (evidenceList net) \<longrightarrow>
      (\<exists>s. (uName, s) \<in> set (evidenceList net) \<and> getInference net uName = Inr (State s)))
   \<and> (uName \<notin> fst ` set (evidenceList net) \<longrightarrow>
        getInference net uName
          = bindE (marginalProbability net uName True) (\<lambda>p. Inr (Distribution p)))
   \<and> (setEvidence net [(n, s)] = (None, [], net') \<longrightarrow> getInference net' n = Inr (State s))"
proof (intro conjI impI)
  assume "uName \<in> fst ` set (evidenceList net)"
  then obtain s where s: "first_state (evidenceList net) uName = Some s"
    using first_state_None [of "evidenceList net" uName]
    by (cases "first_state (evidenceList net) uName") auto
  then show "\<exists>s. (uName, s) \<in> set (evidenceList net) \<and> getInference net uName = Inr (State s)"
    using first_state_mem [OF s] by (auto simp: getInference_def)
next
  assume "uName \<notin> fst ` set (evidenceList net)"
  then have "first_state (evidenceList net) uName = None"
    by (simp add: first_state_None)
  then show "getInference net uName
          = bindE (marginalProbability net uName True) (\<lambda>p. Inr (Distribution p))"
    by (simp add: getInference_def)
next
  assume "setEvidence net [(n, s)] = (None, [], net')"
  then have "evidenceList net' = [(n, s)]"
    by (auto simp: setEvidence_def split: check.splits sum.splits if_splits)
  then show "getInference net' n = Inr (State s)"
    by (simp add: getInference_def)
qed

theorem getInference_evidence_or_marginal_witness:
  "setEvidence chain [(''S'', ''y'')] = (None, [], chain_ev)
   \<and> getInference chain_ev ''S'' = Inr (State ''y'')
   \<and> ''S'' \<in> fst ` set (evidenceList chain_ev)
   \<and> ''C'' \<notin> fst ` set (evidenceList chain_ev)
   \<and> getInference chain_ev ''C''
       = bindE (marginalProbability chain_ev ''C'' True) (\<lambda>p. Inr (Distribution p))"
proof -
  have set: "setEvidence chain [(''S'', ''y'')] = (None, [], chain_ev)"
    by (simp add: chain_ev_def setEvidence_chain)
  have ev: "evidenceList chain_ev = [(''S'', ''y'')]"
    by (simp add: chain_ev_def setEvidence_chain)
  show ?thesis
    using set ev
      getInference_evidence_or_marginal [of "''C''" chain_ev "''S''" "''y''" chain_ev]
      getInference_evidence_or_marginal [of "''S''" chain "''S''" "''y''" chain_ev]
    by simp
qed

text \<open>
  C10.  When the evidence list has several entries for the same name,
  \<^verbatim>\<open>getInference\<close> returns the state of the first of them in list order.
\<close>

theorem getInference_first_match:
  "evidenceList net = pre @ (uName, s) # post \<Longrightarrow> uName \<notin> fst ` set pre
     \<Longrightarrow> getInference net uName = Inr (State s)"
  by (simp add: getInference_def first_state_append)

theorem getInference_first_match_witness:
  "evidenceList chain_dup = [] @ (''S'', ''y'') # [(''S'', ''n'')]
   \<and> getInference chain_dup ''S'' = Inr (State ''y'')"
proof -
  have ev: "evidenceList chain_dup = [] @ (''S'', ''y'') # [(''S'', ''n'')]"
    by (simp add: chain_dup_def setEvidence_chain)
  show ?thesis
    using ev getInference_first_match [OF ev] by simp
qed

subsection \<open>Setting and clearing evidence\<close>

lemma check_evidence_append:
  "list_all (valid_entry net) pre
     \<Longrightarrow> check_evidence net (pre @ rest) = check_evidence net rest"
  by (induction pre) (auto simp: valid_entry_def get_states_def split: sum.splits option.splits)

lemma vertexObject_unknown:
  "vName \<notin> set (map name (vertexes net)) \<Longrightarrow> vertexObject net vName = Inl (KeyError vName)"
  by (auto simp: vertexObject_def find_None_iff split: option.splits)

text \<open>
  C5, as stated, fails: a list with an unknown name is not always abandoned without
  raising.  When an earlier entry names a node but gives a state the node does not
  have, the call raises before it reaches the unknown name.
\<close>

theorem setEvidence_unknown_name_counterexample:
  "''Z'' \<notin> set (map name (vertexes chain))
   \<and> (''Z'', ''y'') \<in> set [(''S'', ''x''), (''Z'', ''y'')]
   \<and> setEvidence chain [(''S'', ''x''), (''Z'', ''y'')]
       = (Some (ValueError ''Invalid state for node specified''), [], chain)"
  by (simp add: setEvidence_def chain_value vertexObject_def get_states_def)

text \<open>
  C5, amended.  The entries are validated in list order and the first entry that is
  not valid decides: after valid entries, an entry whose name is not a node makes the
  call print a message and return without raising, the evidence list unchanged; an
  entry whose name is a node with a table that lacks the entry's state makes the call
  raise the \<^verbatim>\<open>ValueError\<close> (InvalidState), the evidence list unchanged.  When all
  entries are valid the evidence list is replaced by the input list.
\<close>

theorem setEvidence_first_failure:
  assumes "list_all (valid_entry net) pre"
  shows "(vName \<notin> set (map name (vertexes net)) \<longrightarrow>
           setEvidence net (pre @ (vName, vState) # post)
             = (None, [''Invalid node specified''], net))
    \<and> (\<forall>v a. vertexObject net vName = Inr v \<and> table v = Some a \<and> vState \<notin> set (states a) \<longrightarrow>
           setEvidence net (pre @ (vName, vState) # post)
             = (Some (ValueError ''Invalid state for node specified''), [], net))
    \<and> setEvidence net pre = (None, [], net\<lparr>evidenceList := pre\<rparr>)"
proof (intro conjI impI allI)
  assume "vName \<notin> set (map name (vertexes net))"
  then show "setEvidence net (pre @ (vName, vState) # post)
             = (None, [''Invalid node specified''], net)"
    using assms by (simp add: setEvidence_def check_evidence_append vertexObject_unknown)
next
  fix v a
  assume "vertexObject net vName = Inr v \<and> table v = Some a \<and> vState \<notin> set (states a)"
  then show "setEvidence net (pre @ (vName, vState) # post)
             = (Some (ValueError ''Invalid state for node specified''), [], net)"
    using assms by (simp add: setEvidence_def check_evidence_append get_states_def)
next
  show "setEvidence net pre = (None, [], net\<lparr>evidenceList := pre\<rparr>)"
    using assms check_evidence_append [of net pre "[]"] by (simp add: setEvidence_def)
qed

theorem setEvidence_first_failure_witness:
  "list_all (valid_entry chain_ev) [(''S'', ''n'')]
   \<and> ''Z'' \<notin> set (map name (vertexes chain_ev))
   \<and> setEvidence chain_ev ([(''S'', ''n'')] @ (''Z'', ''y'') # [(''C'', ''y'')])
       = (None, [''Invalid node specified''], chain_ev)
   \<and> setEvidence chain_ev ([(''S'', ''n'')] @ (''C'', ''x'') # [(''Z'', ''y'')])
       = (Some (ValueError ''Invalid state for node specified''), [], chain_ev)
   \<and> setEvidence chain_ev [(''S'', ''n'')] = (None, [], chain_ev\<lparr>evidenceList := [(''S'', ''n'')]\<rparr>)"
proof -
  have v: "chain_ev = chain\<lparr>evidenceList := [(''S'', ''y'')]\<rparr>"
    by (simp add: chain_ev_def setEvidence_chain)
  have pre: "list_all (valid_entry chain_ev) [(''S'', ''n'')]"
    by (simp add: v chain_value valid_entry_def vertexObject_def)
  have z: "''Z'' \<notin> set (map name (vertexes chain_ev))"
    by (simp add: v chain_value)
  have c: "vertexObject chain_ev ''C'' = Inr (vertexes chain_ev ! 1)
           \<and> table (vertexes chain_ev ! 1)
               = Some \<lparr>probability = NDArray [2, 2] [Fin (1 / 2), Fin 1, Fin (1 / 2), Fin 0],
                       states = [''n'', ''y''], dependencyList = [''S'']\<rparr>"
    by (simp add: v chain_value vertexObject_def)
  show ?thesis
    using pre z c
      setEvidence_first_failure [OF pre, of "''Z''" "''y''" "[(''C'', ''y'')]"]
      setEvidence_first_failure [OF pre, of "''C''" "''x''" "[(''Z'', ''y'')]"]
    by simp
qed

text \<open>
  C9.  \<^verbatim>\<open>unsetEvidence\<close> always empties the evidence list.  On a network without
  evidence, \<^verbatim>\<open>setEvidence\<close> followed by \<^verbatim>\<open>unsetEvidence\<close> gives back the network,
  so every marginal is what it was before the evidence was set.
\<close>

theorem unsetEvidence_restores:
  "evidenceList (unsetEvidence net') = []
   \<and> (evidenceList net = [] \<longrightarrow>
        unsetEvidence (snd (snd (setEvidence net ev))) = net
        \<and> marginalProbability (unsetEvidence (snd (snd (setEvidence net ev)))) n tot
            = marginalProbability net n tot)"
proof -
  have "evidenceList net = [] \<Longrightarrow> unsetEvidence (snd (snd (setEvidence net ev))) = net"
    by (simp add: unsetEvidence_def setEvidence_def split: check.splits)
  then show ?thesis
    by (simp add: unsetEvidence_def)
qed

theorem unsetEvidence_restores_witness:
  "evidenceList chain = []
   \<and> evidenceList chain_ev = [(''S'', ''y'')]
   \<and> unsetEvidence chain_ev = chain
   \<and> marginalProbability (unsetEvidence chain_ev) ''C'' True = marginalProbability chain ''C'' True"
proof -
  have e: "evidenceList chain = []"
    by (simp add: chain_value)
  have v: "evidenceList chain_ev = [(''S'', ''y'')]"
    by (simp add: chain_ev_def setEvidence_chain)
  show ?thesis
    using e v unsetEvidence_restores [of chain chain "[(''S'', ''y'')]" "''C''" True]
    by (simp add: chain_ev_def)
qed

subsection \<open>Attaching a table\<close>

text \<open>
  C6.  A table whose first dimension is not the number of states is rejected with the
  \<^verbatim>\<open>ValueError\<close> "Incorrect states", and the network, so the node's earlier table,
  states and parent list, is as before.  For a node of the network the same holds when
  the rank of the table is not the number of graph parents plus one, or not the
  length of the parent-name list plus one.
\<close>

theorem addProbabilityTable_rejects:
  assumes "shape prob = d # ds"
  shows "(d \<noteq> length sts \<longrightarrow>
           addProbabilityTable net uName prob sts depList
             = (Some (ValueError ''Incorrect states''), net))
    \<and> (\<forall>ps. getParents net uName = Inr ps
             \<and> (length (shape prob) \<noteq> length ps + 1
                \<or> length (shape prob) \<noteq> length (case depList of None \<Rightarrow> [] | Some l \<Rightarrow> l) + 1)
          \<longrightarrow> (\<exists>msg. addProbabilityTable net uName prob sts depList
                       = (Some (ValueError msg), net)))"
  using assms by (auto simp: addProbabilityTable_def Let_def)

theorem addProbabilityTable_rejects_witness:
  "shape (NDArray [3] [Fin 1, Fin 0, Fin 0]) = 3 # []
   \<and> 3 \<noteq> length [''n'', ''y'']
   \<and> addProbabilityTable chain ''S'' (NDArray [3] [Fin 1, Fin 0, Fin 0]) [''n'', ''y''] None
       = (Some (ValueError ''Incorrect states''), chain)
   \<and> getParents chain ''C'' = Inr [vertexes chain ! 0]
   \<and> (\<exists>msg. addProbabilityTable chain ''C'' (NDArray [3] [Fin 1, Fin 0, Fin 0])
               [''n'', ''y'', ''z''] None
             = (Some (ValueError msg), chain))"
proof -
  have s: "shape (NDArray [3] [Fin 1, Fin 0, Fin 0]) = 3 # []"
    by simp
  have p: "getParents chain ''C'' = Inr [vertexes chain ! 0]"
    by (simp add: getParents_def chain_value vertexObject_def)
  show ?thesis
    using s p
      addProbabilityTable_rejects [OF s, of "[''n'', ''y'']" chain "''S''" None]
      addProbabilityTable_rejects [OF s, of "[''n'', ''y'', ''z'']" chain "''C''" None]
    by simp
qed

subsection \<open>The joint distribution\<close>

lemma mapE_get_probability_missing:
  "v \<in> set vl \<Longrightarrow> table v = None
     \<Longrightarrow> mapE get_probability vl = Inl (AttributeError ''probability'')"
  by (induction vl) (auto simp: get_probability_def split: option.splits sum.splits)

text \<open>
  C7.  When a node of the queried list (all nodes when the list is omitted or evidence
  is set) has no table, \<^verbatim>\<open>jointProbability\<close> raises the \<^verbatim>\<open>AttributeError\<close> for the
  missing \<^verbatim>\<open>probability\<close> (MissingTable) and returns no array.
\<close>

theorem jointProbability_missing_table:
  "v \<in> set (effective_list net vertexList) \<Longrightarrow> table v = None
     \<Longrightarrow> jointProbability net vertexList = Inl (AttributeError ''probability'')"
  by (simp add: jointProbability_def rawJoint_def mapE_get_probability_missing)

theorem jointProbability_missing_table_witness:
  "vertexes chain1 ! 1 \<in> set (effective_list chain1 None)
   \<and> table (vertexes chain1 ! 1) = None
   \<and> jointProbability chain1 None = Inl (AttributeError ''probability'')"
proof -
  have m: "vertexes chain1 ! 1 \<in> set (effective_list chain1 None)"
    by (simp add: effective_list_def chain1_value)
  have t: "table (vertexes chain1 ! 1) = None"
    by (simp add: chain1_value)
  show ?thesis
    using m t jointProbability_missing_table [OF m t] by simp
qed

subsection \<open>Evaluating the queries on the examples\<close>

lemmas einsum_eval = einsum_def Let_def is_letter_def op_ok_def op_dims_def broadcast_ok_def label_dim_def
      operand_entry_def lookup_idx_def item_def fsum_def fprod_def upt_rec

lemmas query_eval = rawJoint_def effective_list_def indexDict_def lookupD_def lhsTerm_def
  get_probability_def get_dependencyList_def get_states_def vertexObject_def
  np_div_def np_sum_def evidenceSlice_def np_index_def out_of_bounds_def


lemma chain_ev_value: "chain_ev = chain\<lparr>evidenceList := [(''S'', ''y'')]\<rparr>"
  by (simp add: chain_ev_def setEvidence_chain)


subsection \<open>Normalization\<close>









subsection \<open>Every network built through the interface covers its parent lists\<close>

lemma update_vertex_mem:
  "v' \<in> set (update_vertex n f vs) \<Longrightarrow> v' \<in> set vs \<or> (\<exists>v \<in> set vs. name v = n \<and> v' = f v)"
  by (induction vs) (auto split: if_splits)

lemma count_update_same:
  "(\<And>v. neighbors (f v) = neighbors v)
     \<Longrightarrow> length (filter (\<lambda>p. x \<in> neighbors p) (update_vertex n f vs))
         = length (filter (\<lambda>p. x \<in> neighbors p) vs)"
  by (induction vs) auto

lemma count_update_grow:
  "(\<And>v. neighbors v \<subseteq> neighbors (f v))
     \<Longrightarrow> length (filter (\<lambda>p. x \<in> neighbors p) vs)
         \<le> length (filter (\<lambda>p. x \<in> neighbors p) (update_vertex n f vs))"
  by (induction vs) (auto simp: subset_iff)

lemma parents_cover_init: "parents_cover init"
  by (simp add: parents_cover_def init_def)

lemma parents_cover_addVertex: "parents_cover net \<Longrightarrow> parents_cover (addVertex net n)"
  by (auto simp: parents_cover_def addVertex_def)

lemma parents_cover_add_neighbor:
  assumes "parents_cover net"
  shows "parents_cover (net\<lparr>vertexes :=
            update_vertex p (\<lambda>q. q\<lparr>neighbors := insert c (neighbors q)\<rparr>) (vertexes net),
          edges := es\<rparr>)"
  unfolding parents_cover_def
proof (intro ballI allI impI)
  fix v a
  let ?f = "\<lambda>q. q\<lparr>neighbors := insert c (neighbors q)\<rparr>"
  let ?net' = "net\<lparr>vertexes := update_vertex p ?f (vertexes net), edges := es\<rparr>"
  assume v: "v \<in> set (vertexes ?net')" and t: "table v = Some a"
  from v have "v \<in> set (vertexes net) \<or> (\<exists>w \<in> set (vertexes net). name w = p \<and> v = ?f w)"
    using update_vertex_mem [of v p ?f "vertexes net"] by simp
  then obtain w where w: "w \<in> set (vertexes net)" "name w = name v" "table w = table v"
    by auto
  then have "length (dependencyList a) \<le> length (filter (\<lambda>q. name v \<in> neighbors q) (vertexes net))"
    using assms t by (auto simp: parents_cover_def)
  also have "\<dots> \<le> length (filter (\<lambda>q. name v \<in> neighbors q) (update_vertex p ?f (vertexes net)))"
    by (rule count_update_grow) auto
  finally show "length (dependencyList a) \<le> length (filter (\<lambda>q. name v \<in> neighbors q) (vertexes ?net'))"
    by simp
qed

lemma parents_cover_addEdge: "parents_cover net \<Longrightarrow> parents_cover (addEdge net p c w)"
  by (simp add: addEdge_def Let_def parents_cover_add_neighbor parents_cover_addVertex)

lemma vertexObject_Inr:
  "vertexObject net n = Inr u \<Longrightarrow> u \<in> set (vertexes net) \<and> name u = n"
  by (auto simp: vertexObject_def find_Some_iff split: option.splits)

lemma parents_cover_set_table:
  assumes pc: "parents_cover net"
    and len: "length dl = length (filter (\<lambda>q. u \<in> neighbors q) (vertexes net))"
  shows "parents_cover (net\<lparr>vertexes :=
            update_vertex u (\<lambda>q. q\<lparr>table := Some \<lparr>probability = prob, states = sts,
                                                  dependencyList = dl\<rparr>\<rparr>) (vertexes net)\<rparr>)"
  unfolding parents_cover_def
proof (intro ballI allI impI)
  fix v a
  let ?f = "\<lambda>q. q\<lparr>table := Some \<lparr>probability = prob, states = sts, dependencyList = dl\<rparr>\<rparr>"
  let ?net' = "net\<lparr>vertexes := update_vertex u ?f (vertexes net)\<rparr>"
  assume v: "v \<in> set (vertexes ?net')" and t: "table v = Some a"
  have same: "length (filter (\<lambda>q. name v \<in> neighbors q) (vertexes ?net'))
      = length (filter (\<lambda>q. name v \<in> neighbors q) (vertexes net))"
    using count_update_same [of ?f "name v" u "vertexes net"] by simp
  from v have "v \<in> set (vertexes net) \<or> (\<exists>w \<in> set (vertexes net). name w = u \<and> v = ?f w)"
    using update_vertex_mem [of v u ?f "vertexes net"] by simp
  then show "length (dependencyList a) \<le> length (filter (\<lambda>q. name v \<in> neighbors q) (vertexes ?net'))"
  proof
    assume "v \<in> set (vertexes net)"
    then show ?thesis using pc t same by (auto simp: parents_cover_def)
  next
    assume "\<exists>w \<in> set (vertexes net). name w = u \<and> v = ?f w"
    then obtain w where "name w = u" "v = ?f w" by auto
    then have "name v = u" "dependencyList a = dl" using t by auto
    then show ?thesis using len same by simp
  qed
qed

lemma getParents_Inr:
  "getParents net u = Inr ps \<Longrightarrow> ps = filter (\<lambda>q. u \<in> neighbors q) (vertexes net)"
  by (cases "vertexObject net u") (auto simp: getParents_def dest: vertexObject_Inr)

lemma parents_cover_addProbabilityTable:
  assumes "parents_cover net"
  shows "parents_cover (snd (addProbabilityTable net u prob sts dl))"
  using assms
  by (auto simp: addProbabilityTable_def Let_def
      intro!: parents_cover_set_table dest!: getParents_Inr split: list.splits sum.splits)

lemma parents_cover_evidence:
  "parents_cover net \<Longrightarrow> parents_cover (snd (snd (setEvidence net ev)))"
  "parents_cover net \<Longrightarrow> parents_cover (unsetEvidence net)"
  by (auto simp: parents_cover_def setEvidence_def unsetEvidence_def split: check.splits)

lemma reachable_parents_cover: "reachable net \<Longrightarrow> parents_cover net"
  by (induction rule: reachable.induct)
    (simp_all add: parents_cover_init parents_cover_addVertex parents_cover_addEdge
      parents_cover_addProbabilityTable parents_cover_evidence)



subsection \<open>The marginal distribution\<close>

text \<open>
  C8.  For a node with a table and with no evidence set, \<^verbatim>\<open>marginalProbability\<close>
  returns the node's table as it is when the node's parent-name list is empty, and so,
  on every network built through the interface, when the node has no parents in the
  graph.
\<close>

theorem marginalProbability_root:
  assumes "vertexObject net uName = Inr u" and "table u = Some a" and "evidenceList net = []"
  shows "(dependencyList a = [] \<longrightarrow> marginalProbability net uName tot = Inr (probability a))
    \<and> (reachable net \<and> getParents net uName = Inr [] \<longrightarrow>
         marginalProbability net uName tot = Inr (probability a))"
proof -
  have fast: "dependencyList a = [] \<Longrightarrow> marginalProbability net uName tot = Inr (probability a)"
    using assms by (simp add: marginalProbability_def get_dependencyList_def get_probability_def)
  { assume r: "reachable net" and g: "getParents net uName = Inr []"
    have u: "u \<in> set (vertexes net)" "name u = uName"
      using vertexObject_Inr [OF assms(1)] by auto
    have "filter (\<lambda>q. name u \<in> neighbors q) (vertexes net) = []"
      using g assms(1) by (simp add: getParents_def)
    then have "dependencyList a = []"
      using reachable_parents_cover [OF r] u assms(2) by (auto simp: parents_cover_def)
    then have "marginalProbability net uName tot = Inr (probability a)" by (rule fast) }
  with fast show ?thesis by blast
qed

theorem marginalProbability_root_witness:
  "vertexObject chain ''S'' = Inr (vertexes chain ! 0)
   \<and> table (vertexes chain ! 0)
       = Some \<lparr>probability = NDArray [2] [Fin (1 / 4), Fin (3 / 4)],
               states = [''n'', ''y''], dependencyList = []\<rparr>
   \<and> evidenceList chain = []
   \<and> reachable chain
   \<and> getParents chain ''S'' = Inr []
   \<and> marginalProbability chain ''S'' True = Inr (NDArray [2] [Fin (1 / 4), Fin (3 / 4)])"
proof -
  have v: "vertexObject chain ''S'' = Inr (vertexes chain ! 0)"
    by (simp add: chain_value vertexObject_def)
  have t: "table (vertexes chain ! 0)
       = Some \<lparr>probability = NDArray [2] [Fin (1 / 4), Fin (3 / 4)],
               states = [''n'', ''y''], dependencyList = []\<rparr>"
    by (simp add: chain_value)
  have e: "evidenceList chain = []"
    by (simp add: chain_value)
  have r: "reachable chain"
    unfolding chain_def chain1_def chain0_def addChild_def addNode_def
    by (intro reachable.intros)
  have g: "getParents chain ''S'' = Inr []"
    by (simp add: getParents_def chain_value vertexObject_def)
  show ?thesis
    using v t e r g marginalProbability_root [OF v t e, of True] by simp
qed

subsection \<open>Every network built through the interface has one vertex per name\<close>

lemma update_vertex_names:
  "(\<And>v. name (f v) = name v) \<Longrightarrow> map name (update_vertex n f vs) = map name vs"
  by (induction vs) auto

lemma distinct_names_addVertex: "distinct_names net \<Longrightarrow> distinct_names (addVertex net n)"
  by (auto simp: distinct_names_def addVertex_def)

lemma distinct_names_addEdge: "distinct_names net \<Longrightarrow> distinct_names (addEdge net p c w)"
  using distinct_names_addVertex [OF distinct_names_addVertex, of net p c]
  by (simp add: distinct_names_def addEdge_def Let_def update_vertex_names)

lemma distinct_names_addProbabilityTable:
  "distinct_names net \<Longrightarrow> distinct_names (snd (addProbabilityTable net u prob sts dl))"
  by (auto simp: distinct_names_def addProbabilityTable_def Let_def update_vertex_names
      split: list.splits sum.splits)

lemma distinct_names_evidence:
  "distinct_names net \<Longrightarrow> distinct_names (snd (snd (setEvidence net ev)))"
  "distinct_names net \<Longrightarrow> distinct_names (unsetEvidence net)"
  by (auto simp: distinct_names_def setEvidence_def unsetEvidence_def split: check.splits)

lemma reachable_distinct_names: "reachable net \<Longrightarrow> distinct_names net"
  by (induction rule: reachable.induct)
    (simp_all add: distinct_names_addVertex distinct_names_addEdge
      distinct_names_addProbabilityTable distinct_names_evidence,
     simp add: distinct_names_def init_def)


subsection \<open>Labels and axes\<close>


lemma position_None: "(position n xs = None) = (n \<notin> set xs)"
  by (induction xs) auto

lemma position_nth: "distinct xs \<Longrightarrow> k < length xs \<Longrightarrow> position (xs ! k) xs = Some k"
proof (induction xs arbitrary: k)
  case Nil
  then show ?case by simp
next
  case (Cons x xs)
  then show ?case by (cases k) auto
qed

lemma fold_labels:
  "distinct (map name vs) \<Longrightarrow>
     fold (\<lambda>(i, v) d. d(name v \<mapsto> i + 97)) (enumerate n vs) d0 k
       = (case position k (map name vs) of None \<Rightarrow> d0 k | Some j \<Rightarrow> Some (n + j + 97))"
proof (induction vs arbitrary: n d0)
  case Nil
  then show ?case by simp
next
  case (Cons v vs)
  have "k \<noteq> name v \<Longrightarrow> ?case"
    using Cons by (simp split: option.splits)
  moreover have "k = name v \<Longrightarrow> ?case"
    using Cons by (simp add: position_None [THEN iffD2] image_iff)
  ultimately show ?case by blast
qed

lemma lookupD_indexDict:
  assumes "distinct_names net" and "indexDict net = Inr d"
  shows "lookupD d n = bindE (axis_of net n) (\<lambda>k. Inr (k + 97))"
proof -
  have "d = fold (\<lambda>(i, v) d. d(name v \<mapsto> i + 97)) (enumerate 0 (vertexes net)) Map.empty"
    using assms(2) by (simp add: indexDict_def split: if_splits)
  then have "d n = (case position n (map name (vertexes net)) of None \<Rightarrow> None | Some j \<Rightarrow> Some (j + 97))"
    using fold_labels [of "vertexes net" 0 Map.empty n] assms(1)
    by (simp add: distinct_names_def split: option.splits)
  then show ?thesis
    by (simp add: lookupD_def axis_of_def split: option.splits)
qed



lemma indexDict_unset [simp]: "indexDict (unsetEvidence net) = indexDict net"
  by (simp add: indexDict_def unsetEvidence_def)

lemma rawJoint_unset [simp]: "rawJoint (unsetEvidence net) vl = rawJoint net vl"
  by (simp add: rawJoint_def)

lemma mapE_length: "mapE f xs = Inr ys \<Longrightarrow> length ys = length xs"
  by (induction xs arbitrary: ys) (auto split: sum.splits)

lemma rawJoint_Inr:
  assumes "rawJoint net vl = Inr raw"
  shows "(\<exists>d. indexDict net = Inr d) \<and> length (shape raw) = length vl"
proof -
  from assms obtain probList where p: "mapE get_probability vl = Inr probList"
    by (cases "mapE get_probability vl") (auto simp: rawJoint_def)
  with assms obtain d where d: "indexDict net = Inr d"
    by (cases "indexDict net") (auto simp: rawJoint_def)
  with p assms obtain rhs where r: "mapE (\<lambda>v. lookupD d (name v)) vl = Inr rhs"
    by (cases "mapE (\<lambda>v. lookupD d (name v)) vl") (auto simp: rawJoint_def)
  with p d assms obtain lhsList where l: "mapE (lhsTerm d) vl = Inr lhsList"
    by (cases "mapE (lhsTerm d) vl") (auto simp: rawJoint_def)
  with p d r assms have "einsum (zip lhsList probList) rhs = Inr raw"
    by (simp add: rawJoint_def)
  then have "shape raw = map (label_dim (zip lhsList probList)) rhs"
    by (auto simp: einsum_def Let_def split: if_splits)
  then show ?thesis using d mapE_length [OF r] by simp
qed






lemma effective_list_evidence:
  "evidenceList net \<noteq> [] \<Longrightarrow> effective_list net vertexList = vertexes net"
  by (simp add: effective_list_def split: option.splits)




lemma chain_ev_facts:
  "evidenceList chain_ev \<noteq> []"
  "distinct_names chain_ev"
  "complete chain_ev"
  "''C'' \<in> set (map name (vertexes chain_ev))"
  by (simp_all add: chain_ev_value chain_value distinct_names_def complete_def)

lemma chain_ev_joint: "jointProbability chain_ev None = Inr (NDArray [2] [Fin 1, Fin 0])"
  by (simp add: jointProbability_def chain_ev_value chain_value query_eval einsum_eval)





subsection \<open>The marginal with evidence\<close>

lemma mapE_Inr_map: "(\<forall>x \<in> set xs. f x = Inr (g x)) \<Longrightarrow> mapE f xs = Inr (map g xs)"
  by (induction xs) auto

lemma enumerate_nth: "enumerate 0 vs = map (\<lambda>k. (k, vs ! k)) [0..<length vs]"
  by (rule nth_equalityI) (simp_all add: nth_enumerate_eq)

lemma filter_nth: "filter P vs = map (\<lambda>k. vs ! k) (filter (\<lambda>k. P (vs ! k)) [0..<length vs])"
proof -
  have "filter P (map (\<lambda>k. vs ! k) [0..<length vs])
      = map (\<lambda>k. vs ! k) (filter (\<lambda>k. P (vs ! k)) [0..<length vs])"
    by (simp add: filter_map comp_def)
  then show ?thesis by (simp add: map_nth)
qed

lemma labels_of_filter:
  assumes "distinct_names net" and "indexDict net = Inr d"
  shows "mapE (\<lambda>v. lookupD d (name v)) (filter P (vertexes net))
     = Inr (map (\<lambda>p. fst p + 97) (filter (\<lambda>p. P (snd p)) (enumerate 0 (vertexes net))))"
proof -
  let ?vs = "vertexes net"
  let ?ks = "filter (\<lambda>k. P (?vs ! k)) [0..<length ?vs]"
  have dn: "distinct (map name ?vs)"
    using assms(1) by (simp add: distinct_names_def)
  have lab: "lookupD d (name (?vs ! k)) = Inr (k + 97)" if "k < length ?vs" for k
    using position_nth [OF dn, of k] that
    by (simp add: lookupD_indexDict [OF assms] axis_of_def)
  have m: "mapE (\<lambda>v. lookupD d (name v)) (map (\<lambda>k. ?vs ! k) ks) = Inr (map (\<lambda>k. k + 97) ks)"
    if "set ks \<subseteq> {0..<length ?vs}" for ks
    using that by (induction ks) (simp_all add: lab)
  have e: "filter (\<lambda>p. P (snd p)) (enumerate 0 ?vs) = map (\<lambda>k. (k, ?vs ! k)) ?ks"
    by (simp add: enumerate_nth filter_map comp_def)
  have sub: "set ?ks \<subseteq> {0..<length ?vs}"
    by auto
  have "mapE (\<lambda>v. lookupD d (name v)) (filter P ?vs) = Inr (map (\<lambda>k. k + 97) ?ks)"
    by (subst filter_nth) (rule m [OF sub])
  then show ?thesis
    by (simp add: e comp_def)
qed

lemma jointProbability_Inr_indexDict:
  "jointProbability net vl = Inr p \<Longrightarrow> \<exists>d. indexDict net = Inr d"
  by (cases "rawJoint net (effective_list net vl)")
     (auto simp: jointProbability_def dest: rawJoint_Inr)

lemma complete_table:
  "complete net \<Longrightarrow> vertexObject net n = Inr u \<Longrightarrow> \<exists>a. table u = Some a"
  using vertexObject_Inr [of net n u] by (auto simp: complete_def list_all_iff)

lemma vertexObject_known:
  "n \<in> set (map name (vertexes net)) \<Longrightarrow> \<exists>u. vertexObject net n = Inr u"
  by (cases "vertexObject net n") (auto simp: vertexObject_def find_None_iff split: option.splits)


text \<open>
  C2.  On a complete network with evidence set, for a node of the network and any
  value of \<^verbatim>\<open>total\<close>, \<^verbatim>\<open>marginalProbability\<close> is the joint of the full network
  contracted to the label of the node, the input labels being those of the nodes
  that have no evidence.
\<close>

theorem marginalProbability_with_evidence:
  assumes "evidenceList net \<noteq> []" and "distinct_names net" and "complete net"
    and "uName \<in> set (map name (vertexes net))"
  shows "marginalProbability net uName tot = marginal_spec net uName"
proof -
  from vertexObject_known [OF assms(4)] obtain u where u: "vertexObject net uName = Inr u"
    by blast
  from complete_table [OF assms(3) u] obtain a where a: "table u = Some a"
    by blast
  have j: "jointProbability net (Some (vertexes net)) = jointProbability net None"
    by (simp add: jointProbability_def effective_list_evidence [OF assms(1)])
  show ?thesis
  proof (cases "jointProbability net None")
    case (Inl e)
    then show ?thesis
      using assms(1) by (simp add: marginalProbability_def marginal_spec_def u a j
          get_dependencyList_def)
  next
    case (Inr jp)
    from jointProbability_Inr_indexDict [OF Inr] obtain d where d: "indexDict net = Inr d"
      by blast
    have lhs: "mapE (\<lambda>v. lookupD d (name v))
                 (filter (\<lambda>v. name v \<notin> fst ` set (evidenceList net)) (vertexes net))
             = Inr (unclamped_labels net)"
      using labels_of_filter [OF assms(2) d] by (simp add: unclamped_labels_def)
    have rhs: "lookupD d uName = label_of net uName"
      by (simp add: lookupD_indexDict [OF assms(2) d] label_of_def)
    show ?thesis
      using assms(1) by (simp add: marginalProbability_def marginal_spec_def u a j Inr d
          get_dependencyList_def lhs rhs Let_def)
  qed
qed

theorem marginalProbability_with_evidence_witness:
  "evidenceList chain_ev \<noteq> []
   \<and> distinct_names chain_ev
   \<and> complete chain_ev
   \<and> ''C'' \<in> set (map name (vertexes chain_ev))
   \<and> marginal_spec chain_ev ''C'' = Inr (NDArray [2] [Fin 1, Fin 0])
   \<and> marginalProbability chain_ev ''C'' False = Inr (NDArray [2] [Fin 1, Fin 0])"
proof -
  have l: "label_of chain_ev ''C'' = Inr 98" "unclamped_labels chain_ev = [98]"
    by (simp_all add: label_of_def axis_of_def unclamped_labels_def chain_ev_value chain_value)
  have m: "marginal_spec chain_ev ''C'' = Inr (NDArray [2] [Fin 1, Fin 0])"
    by (simp add: marginal_spec_def chain_ev_joint l einsum_eval)
  show ?thesis
    using chain_ev_facts m
      marginalProbability_with_evidence [OF chain_ev_facts, of False]
    by simp
qed

end
